theory Spec2Isabelle
  imports Main "HOL-Library.Word"
begin

section \<open>Python values used by h5jutils\<close>

text \<open>
  Exceptions of the Python source are values of \<open>error\<close>; a computation that may raise
  returns \<open>error + 'a\<close> with \<open>Inl\<close> for the exception.
\<close>

datatype error =
    ValueError
  | IndexError
  | KeyError string
  | TypeError
  | UnboundLocalError
  | FileNotFoundError
  | EngineError string

type_synonym byte = "8 word"
type_synonym bytes = "byte list"

text \<open>\<open>xs[i]\<close> for a non-negative index: IndexError out of range.\<close>

definition py_index :: "'a list \<Rightarrow> nat \<Rightarrow> error + 'a" where
  "py_index xs i = (if i < length xs then Inr (xs ! i) else Inl IndexError)"




text \<open>\<open>str(n)\<close> for a Python int, as used by the f-string \<open>f"Channel_{n}"\<close>.\<close>

definition digit_char :: "nat \<Rightarrow> char" where
  "digit_char d = char_of (48 + d)"

function str_nat :: "nat \<Rightarrow> string" where
  "str_nat n = (if n < 10 then [digit_char n] else str_nat (n div 10) @ [digit_char (n mod 10)])"
  by pat_completeness auto
termination
  by (relation "measure id") auto

definition str_int :: "int \<Rightarrow> string" where
  "str_int i = (if i < 0 then CHR ''-'' # str_nat (nat (- i)) else str_nat (nat i))"

definition channel_name :: "int \<Rightarrow> string" where
  "channel_name n = ''Channel_'' @ str_int n"

section \<open>Codec discovery: \<open>get_hevc_codecs\<close>\<close>



section \<open>Arrays\<close>

text \<open>
  An image array is its shape, its element type and its elements in row-major order. The
  element types are the two that \<open>extract_channel\<close> produces, \<open>np.uint8\<close> and
  \<open>np.uint16\<close>. \<open>array_size\<close> is numpy's \<open>size\<close>, the product of the shape.
\<close>

datatype dtype = UInt8 | UInt16

record ndarray =
  shape :: "nat list"
  dtype :: dtype
  elems :: "nat list"

definition array_size :: "ndarray \<Rightarrow> nat" where
  "array_size a = prod_list (shape a)"

fun itemsize :: "dtype \<Rightarrow> nat" where
  "itemsize UInt8 = 1"
| "itemsize UInt16 = 2"

text \<open>The elements a buffer holds: unsigned bytes, or little-endian pairs of bytes.\<close>

fun le16_elems :: "bytes \<Rightarrow> nat list" where
  "le16_elems (lo # hi # bs) = (unat lo + 256 * unat hi) # le16_elems bs"
| "le16_elems _ = []"

fun buffer_elems :: "dtype \<Rightarrow> bytes \<Rightarrow> nat list" where
  "buffer_elems UInt8 bs = map unat bs"
| "buffer_elems UInt16 bs = le16_elems bs"

text \<open>
  \<open>np.frombuffer(buf, dtype)\<close>: a one-dimensional array; ValueError when the buffer
  size is not a multiple of the element size.
\<close>

definition frombuffer :: "bytes \<Rightarrow> dtype \<Rightarrow> error + ndarray" where
  "frombuffer buf dt =
     (if length buf mod itemsize dt \<noteq> 0 then Inl ValueError
      else Inr \<lparr>shape = [length buf div itemsize dt], dtype = dt, elems = buffer_elems dt buf\<rparr>)"

text \<open>
  \<open>a.reshape(-1, height, width)\<close>: the leading dimension is inferred as
  \<open>size / (height * width)\<close>; ValueError when that is not a whole number, or when
  \<open>height * width\<close> is zero (numpy cannot infer the dimension then).
\<close>

definition reshape_frames :: "ndarray \<Rightarrow> nat \<Rightarrow> nat \<Rightarrow> error + ndarray" where
  "reshape_frames a height width =
     (if height * width = 0 \<or> array_size a mod (height * width) \<noteq> 0 then Inl ValueError
      else Inr (a\<lparr>shape := [array_size a div (height * width), height, width]\<rparr>))"

text \<open>\<open>a.tobytes()\<close>: the elements as bytes, in row-major order.\<close>

fun elem_bytes :: "dtype \<Rightarrow> nat \<Rightarrow> bytes" where
  "elem_bytes UInt8 x = [of_nat x]"
| "elem_bytes UInt16 x = [of_nat x, of_nat (x div 256)]"

definition tobytes :: "ndarray \<Rightarrow> bytes" where
  "tobytes a = concat (map (elem_bytes (dtype a)) (elems a))"

text \<open>\<open>a[:, :, :, None]\<close> on a three-dimensional array: a trailing axis of length 1.\<close>

definition expand_trailing :: "ndarray \<Rightarrow> ndarray" where
  "expand_trailing a = a\<lparr>shape := shape a @ [1]\<rparr>"

text \<open>
  \<open>a[:, :, :, n]\<close> on a four-dimensional array: IndexError when \<open>n\<close> is not below
  the length of the last axis.
\<close>

definition take_channel :: "ndarray \<Rightarrow> nat \<Rightarrow> error + ndarray" where
  "take_channel a n =
     (let outer = prod_list (take 3 (shape a)); nch = shape a ! 3
      in if length (shape a) \<noteq> 4 \<or> nch \<le> n then Inl IndexError
         else Inr \<lparr>shape = take 3 (shape a), dtype = dtype a,
                   elems = map (\<lambda>i. elems a ! (i * nch + n)) [0..<outer]\<rparr>)"

text \<open>numpy's result type of two element types.\<close>

fun promote :: "dtype \<Rightarrow> dtype \<Rightarrow> dtype" where
  "promote UInt8 UInt8 = UInt8"
| "promote _ _ = UInt16"

text \<open>
  \<open>np.concatenate(arrays, axis=3)\<close> for four-dimensional arrays: ValueError for an
  empty list and when the arrays differ in a dimension other than the last. For each
  position of the first three axes the result holds the trailing entries of the first
  array, then those of the second, and so on.
\<close>

definition concatenate_axis3 :: "ndarray list \<Rightarrow> error + ndarray" where
  "concatenate_axis3 arrays =
     (case arrays of
        [] \<Rightarrow> Inl ValueError
      | a # rest \<Rightarrow>
          if list_all (\<lambda>b. length (shape b) = 4 \<and> take 3 (shape b) = take 3 (shape a)) arrays
          then Inr \<lparr>shape = take 3 (shape a) @ [sum_list (map (\<lambda>b. shape b ! 3) arrays)],
                    dtype = foldl promote (dtype a) (map dtype rest),
                    elems = concat (map (\<lambda>i. concat (map (\<lambda>b. take (shape b ! 3)
                                (drop (i * (shape b ! 3)) (elems b))) arrays))
                              [0..<prod_list (take 3 (shape a))])\<rparr>
          else Inl ValueError)"

section \<open>The external engine and the file store\<close>

text \<open>
  ffmpeg is outside the program. The model takes it as a record of three functions, one
  for each way the source invokes it; each may raise:
  \<^item> \<open>probe\<close>: \<open>imageio_ffmpeg.read_frames\<close> and its first item, the stream metadata;
  \<^item> \<open>decode_raw\<close>: the transcode to \<open>rawvideo\<close> in a given pixel format, read from
    standard output;
  \<^item> \<open>encode_video\<close>: the encode of a raw gray stream of a given width and height with
    a given codec, read back from the temporary file.
  The state of the world is the h5 files by path and the list of engine invocations made
  so far. Temporary files are not modelled.
\<close>

record probe_meta =
  frame_size :: "nat \<times> nat"
  pix_fmt :: string

record engine =
  probe :: "bytes \<Rightarrow> error + probe_meta"
  decode_raw :: "bytes \<Rightarrow> string \<Rightarrow> error + bytes"
  encode_video :: "nat \<Rightarrow> nat \<Rightarrow> string \<Rightarrow> bytes \<Rightarrow> error + bytes"

datatype engine_call =
    Probe bytes
  | DecodeRaw bytes string
  | EncodeVideo nat nat string bytes

datatype attr_value = IntArray "int list" | Text string | ByteString string

text \<open>
  A dataset of the \<open>Channels\<close> group holds the compressed stream as a one-dimensional
  array of 8-bit integers: signed ones (\<open>np.int8\<close>) as \<open>encode_channel\<close> produces
  them, or unsigned ones in a file of another writer. \<open>blob_bytes\<close> is
  \<open>dataset[()].tobytes()\<close>: the byte of each element.
\<close>

record dataset =
  content :: "int list"
  ds_attrs :: "(string \<times> attr_value) list"

definition blob_bytes :: "int list \<Rightarrow> bytes" where
  "blob_bytes xs = map word_of_int xs"

text \<open>\<open>np.frombuffer(buf, dtype = np.int8)\<close>: each byte read as a signed integer.\<close>

definition frombuffer_int8 :: "bytes \<Rightarrow> int list" where
  "frombuffer_int8 buf = map sint buf"

text \<open>
  A container: the global attributes, and the \<open>Channels\<close> group with its attributes
  (integer arrays) and its datasets by name.
\<close>

record h5file =
  attrs :: "(string \<times> attr_value) list"
  channels_attrs :: "(string \<times> int list) list"
  datasets :: "(string \<times> dataset) list"

record world =
  files :: "string \<Rightarrow> h5file option"
  calls :: "engine_call list"

type_synonym 'a io = "world \<Rightarrow> (error + 'a) \<times> world"

definition io_return :: "'a \<Rightarrow> 'a io" where
  "io_return x = (\<lambda>w. (Inr x, w))"

definition io_raise :: "error \<Rightarrow> 'a io" where
  "io_raise e = (\<lambda>w. (Inl e, w))"

definition io_lift :: "error + 'a \<Rightarrow> 'a io" where
  "io_lift r = (\<lambda>w. (r, w))"

definition io_bind :: "'a io \<Rightarrow> ('a \<Rightarrow> 'b io) \<Rightarrow> 'b io" where
  "io_bind m f = (\<lambda>w. case m w of (Inl e, w') \<Rightarrow> (Inl e, w') | (Inr x, w') \<Rightarrow> f x w')"

definition bind_err :: "error + 'a \<Rightarrow> ('a \<Rightarrow> error + 'b) \<Rightarrow> error + 'b" where
  "bind_err r f = (case r of Inl e \<Rightarrow> Inl e | Inr x \<Rightarrow> f x)"

definition call_probe :: "engine \<Rightarrow> bytes \<Rightarrow> probe_meta io" where
  "call_probe eng raw = (\<lambda>w. (probe eng raw, w\<lparr>calls := calls w @ [Probe raw]\<rparr>))"

definition call_decode_raw :: "engine \<Rightarrow> bytes \<Rightarrow> string \<Rightarrow> bytes io" where
  "call_decode_raw eng raw fmt =
     (\<lambda>w. (decode_raw eng raw fmt, w\<lparr>calls := calls w @ [DecodeRaw raw fmt]\<rparr>))"

definition call_encode_video :: "engine \<Rightarrow> nat \<Rightarrow> nat \<Rightarrow> string \<Rightarrow> bytes \<Rightarrow> bytes io" where
  "call_encode_video eng width height codec raw =
     (\<lambda>w. (encode_video eng width height codec raw,
           w\<lparr>calls := calls w @ [EncodeVideo width height codec raw]\<rparr>))"

section \<open>Decoding a channel: \<open>extract_channel\<close>\<close>

text \<open>The \<open>if meta['pix_fmt'] == 'gray12le(tv)'\<close> of the source: raw format and dtype.\<close>

definition resolve_pix_fmt :: "string \<Rightarrow> string \<times> dtype" where
  "resolve_pix_fmt p = (if p = ''gray12le(tv)'' then (''gray12le'', UInt16) else (''yuv444p'', UInt8))"

definition extract_channel :: "engine \<Rightarrow> bytes \<Rightarrow> ndarray io" where
  "extract_channel eng raw_data =
     io_bind (call_probe eng raw_data) (\<lambda>meta.
       let (width, height) = frame_size meta;
           (fmt, dt) = resolve_pix_fmt (pix_fmt meta)
       in io_bind (call_decode_raw eng raw_data fmt) (\<lambda>stdout_data.
            io_lift (bind_err (frombuffer stdout_data dt) (\<lambda>flat.
              reshape_frames flat height width))))"

section \<open>Reading a container: \<open>read_h5j\<close>\<close>

text \<open>\<open>channel_attributes[key][0]\<close>: KeyError for a missing key, IndexError for an empty array.\<close>

definition attr0 :: "(string \<times> int list) list \<Rightarrow> string \<Rightarrow> error + int" where
  "attr0 channel_attributes key =
     (case map_of channel_attributes key of
        None \<Rightarrow> Inl (KeyError key)
      | Some v \<Rightarrow> py_index v 0)"

text \<open>The three assignments \<open>nframes\<close>, \<open>height\<close>, \<open>width\<close>, in the source's order of evaluation.\<close>

definition read_channel_attributes :: "(string \<times> int list) list \<Rightarrow> error + int \<times> int \<times> int" where
  "read_channel_attributes ca =
     bind_err (attr0 ca ''frames'') (\<lambda>nframes.
     bind_err (attr0 ca ''height'') (\<lambda>h.
     bind_err (attr0 ca ''pad_bottom'') (\<lambda>pad_bottom.
     bind_err (attr0 ca ''width'') (\<lambda>wd.
     bind_err (attr0 ca ''pad_right'') (\<lambda>pad_right.
       Inr (nframes, h + pad_bottom, wd + pad_right))))))"

text \<open>
  The local variable \<open>signals\<close> is assigned only when \<open>num_channels\<close> is 3 or 1; it is
  \<open>None\<close> here while unbound. \<open>channels\<close> keeps the caller's value unless that is
  \<open>None\<close> and a class was detected.
\<close>

definition detect_signals :: "int \<Rightarrow> (char \<times> nat) list option" where
  "detect_signals num_channels =
     (if num_channels = 3 then Some [(CHR ''R'', 0), (CHR ''G'', 1), (CHR ''B'', 2)]
      else if num_channels = 1 then Some [(CHR ''Y'', 0)]
      else None)"

definition default_channels :: "int \<Rightarrow> string option \<Rightarrow> string option" where
  "default_channels num_channels channels =
     (if num_channels = 3 then (case channels of None \<Rightarrow> Some ''RGB'' | Some cs \<Rightarrow> Some cs)
      else if num_channels = 1 then (case channels of None \<Rightarrow> Some ''Y'' | Some cs \<Rightarrow> Some cs)
      else channels)"

text \<open>\<open>signals[channel]\<close>: UnboundLocalError while \<open>signals\<close> is unbound, KeyError for a missing letter.\<close>

definition lookup_signal :: "(char \<times> nat) list option \<Rightarrow> char \<Rightarrow> error + nat" where
  "lookup_signal signals channel =
     (case signals of
        None \<Rightarrow> Inl UnboundLocalError
      | Some m \<Rightarrow> (case map_of m channel of None \<Rightarrow> Inl (KeyError [channel]) | Some i \<Rightarrow> Inr i))"

text \<open>\<open>h5file["Channels"][name][()].tobytes()\<close>: KeyError for a missing dataset.\<close>

definition dataset_bytes :: "h5file \<Rightarrow> string \<Rightarrow> error + bytes" where
  "dataset_bytes h5 name =
     (case map_of (datasets h5) name of
        None \<Rightarrow> Inl (KeyError name)
      | Some ds \<Rightarrow> Inr (blob_bytes (content ds)))"

text \<open>The loop \<open>for channel in channels\<close>, with the list \<open>signal_channels\<close> as accumulator.\<close>

fun extract_signal_channels ::
  "engine \<Rightarrow> h5file \<Rightarrow> (char \<times> nat) list option \<Rightarrow> string \<Rightarrow> ndarray list \<Rightarrow> ndarray list io" where
  "extract_signal_channels eng h5 signals [] signal_channels = io_return signal_channels"
| "extract_signal_channels eng h5 signals (channel # rest) signal_channels =
     io_bind (io_lift (lookup_signal signals channel)) (\<lambda>i.
     io_bind (io_lift (dataset_bytes h5 (channel_name (int i)))) (\<lambda>raw.
     io_bind (extract_channel eng raw) (\<lambda>channel_data.
       extract_signal_channels eng h5 signals rest (signal_channels @ [channel_data]))))"

text \<open>
  \<open>Concatenate RGB or return single channel\<close>: the branch is taken on \<open>num_channels\<close>,
  the class of the container, not on the number of decoded channels.
\<close>

definition assemble_signal :: "int \<Rightarrow> ndarray list \<Rightarrow> error + ndarray option" where
  "assemble_signal num_channels signal_channels =
     (if num_channels = 3 then
        bind_err (concatenate_axis3 (map expand_trailing signal_channels)) (\<lambda>a. Inr (Some a))
      else if num_channels = 1 then
        bind_err (py_index signal_channels 0) (\<lambda>a. Inr (Some a))
      else Inr None)"

definition read_opened ::
  "engine \<Rightarrow> h5file \<Rightarrow> string option \<Rightarrow> bool \<Rightarrow>
   (ndarray option \<times> ndarray option \<times> (string \<times> attr_value) list) io" where
  "read_opened eng h5 channels reference =
     (let attributes = attrs h5 in
      io_bind (io_lift (read_channel_attributes (channels_attrs h5))) (\<lambda>(nframes, height, width).
        let channel_keys = map fst (datasets h5);
            num_channels = int (length channel_keys) - 1;
            signals = detect_signals num_channels;
            channels' = default_channels num_channels channels
        in
        io_bind (case channels' of
                   None \<Rightarrow> io_raise TypeError
                 | Some cs \<Rightarrow> extract_signal_channels eng h5 signals cs []) (\<lambda>signal_channels.
        io_bind (io_lift (assemble_signal num_channels signal_channels)) (\<lambda>signal.
        io_bind (if reference then
                   io_bind (io_lift (dataset_bytes h5 (channel_name num_channels))) (\<lambda>raw.
                   io_bind (extract_channel eng raw) (\<lambda>r. io_return (Some r)))
                 else io_return None) (\<lambda>reference'.
        io_return (signal, reference', attributes))))))"

text \<open>\<open>h5py.File(filename, 'r')\<close> raises when there is no file at the path.\<close>

definition read_h5j ::
  "engine \<Rightarrow> string \<Rightarrow> string option \<Rightarrow> bool \<Rightarrow>
   (ndarray option \<times> ndarray option \<times> (string \<times> attr_value) list) io" where
  "read_h5j eng filename channels reference =
     (\<lambda>w. case files w filename of
             None \<Rightarrow> (Inl FileNotFoundError, w)
           | Some h5 \<Rightarrow> read_opened eng h5 channels reference w)"

section \<open>Writing a container: \<open>encode_channel\<close> and \<open>write_binary_h5j\<close>\<close>

text \<open>
  \<open>nframes, height, width = arr.shape\<close> raises ValueError unless the array has three
  dimensions. The engine reads \<open>arr.tobytes()\<close>; its output file is read back as
  \<open>np.int8\<close>.
\<close>

definition encode_channel :: "engine \<Rightarrow> ndarray \<Rightarrow> string \<Rightarrow> int list io" where
  "encode_channel eng arr codec =
     (case shape arr of
        [nframes, height, width] \<Rightarrow>
          io_bind (call_encode_video eng width height codec (tobytes arr)) (\<lambda>file_bytes.
            io_return (frombuffer_int8 file_bytes))
      | _ \<Rightarrow> io_raise ValueError)"

text \<open>
  \<open>f['Channels'].create_dataset(name, data = data)\<close> and the \<open>content_type\<close> attribute
  set on it; h5py raises ValueError when the name exists already.
\<close>

definition create_dataset :: "string \<Rightarrow> string \<Rightarrow> int list \<Rightarrow> unit io" where
  "create_dataset filename name data =
     (\<lambda>w. case files w filename of
             None \<Rightarrow> (Inl FileNotFoundError, w)
           | Some h5 \<Rightarrow>
               if name \<in> set (map fst (datasets h5)) then (Inl ValueError, w)
               else (Inr (),
                     w\<lparr>files := (files w)(filename \<mapsto>
                         h5\<lparr>datasets := datasets h5 @
                           [(name, \<lparr>content = data,
                                    ds_attrs = [(''content_type'', ByteString ''signal'')]\<rparr>)]\<rparr>)\<rparr>))"

text \<open>The loop \<open>for n in range(nchannels)\<close>, over the remaining indices.\<close>

fun write_channels :: "engine \<Rightarrow> string \<Rightarrow> ndarray \<Rightarrow> string \<Rightarrow> nat list \<Rightarrow> unit io" where
  "write_channels eng filename arr codec [] = io_return ()"
| "write_channels eng filename arr codec (n # ns) =
     io_bind (io_lift (take_channel arr n)) (\<lambda>slice.
     io_bind (encode_channel eng slice codec) (\<lambda>data.
     io_bind (create_dataset filename (channel_name (int n)) data) (\<lambda>_.
       write_channels eng filename arr codec ns)))"

text \<open>
  \<open>h5py.File(filename, 'w')\<close> creates the file, or truncates the one that exists;
  \<open>create_group('Channels')\<close> and \<open>grp.attrs.update(attrs)\<close> follow before the
  first channel is encoded. An exception in the loop leaves the \<open>with\<close> block, which
  closes the file as it is then.
\<close>

definition create_container :: "string \<Rightarrow> (string \<times> int list) list \<Rightarrow> unit io" where
  "create_container filename group_attrs =
     (\<lambda>w. (Inr (), w\<lparr>files := (files w)(filename \<mapsto>
                        \<lparr>attrs = [], channels_attrs = group_attrs, datasets = []\<rparr>)\<rparr>))"

definition write_accepted ::
  "engine \<Rightarrow> string \<Rightarrow> ndarray \<Rightarrow> nat \<Rightarrow> nat \<Rightarrow> nat \<Rightarrow> nat \<Rightarrow> string \<Rightarrow> unit io" where
  "write_accepted eng filename arr nframes height width nchannels codec =
     (let group_attrs = [(''frames'', [int nframes]),
                         (''height'', [int height]),
                         (''pad_bottom'', [0]),
                         (''pad_right'', [0]),
                         (''width'', [int width])]
      in io_bind (create_container filename group_attrs) (\<lambda>_.
           write_channels eng filename arr codec [0..<nchannels]))"

definition write_binary_h5j :: "engine \<Rightarrow> string \<Rightarrow> ndarray \<Rightarrow> string \<Rightarrow> unit io" where
  "write_binary_h5j eng filename arr codec =
     (case shape arr of
        [nframes, height, width] \<Rightarrow>
          write_accepted eng filename (expand_trailing arr) nframes height width 1 codec
      | [nframes, height, width, nchannels] \<Rightarrow>
          write_accepted eng filename arr nframes height width nchannels codec
      | _ \<Rightarrow> io_raise ValueError)"

section \<open>A sample engine and sample containers\<close>

text \<open>
  Concrete inputs for the instances below. The sample engine stores frames as they are:
  every stream is probed as 2 pixels wide and 1 pixel high in an 8-bit format, and both
  transcodes return their input bytes.
\<close>

definition stored_engine :: engine where
  "stored_engine =
     \<lparr>probe = (\<lambda>raw. Inr \<lparr>frame_size = (2, 1), pix_fmt = ''yuv420p(tv)''\<rparr>),
      decode_raw = (\<lambda>raw fmt. Inr raw),
      encode_video = (\<lambda>width height codec raw. Inr raw)\<rparr>"


definition sample_group_attrs :: "(string \<times> int list) list" where
  "sample_group_attrs =
     [(''frames'', [2]), (''height'', [1]), (''pad_bottom'', [0]), (''pad_right'', [0]),
      (''width'', [2])]"

definition blob :: "int list \<Rightarrow> dataset" where
  "blob xs = \<lparr>content = xs, ds_attrs = [(''content_type'', ByteString ''signal'')]\<rparr>"

definition rgb_file :: h5file where
  "rgb_file =
     \<lparr>attrs = [(''unit'', Text ''um'')], channels_attrs = sample_group_attrs,
      datasets = [(''Channel_0'', blob [1, 2, 3, 4]), (''Channel_1'', blob [5, 6, 7, 8]),
                  (''Channel_2'', blob [9, 10, 11, 12]), (''Channel_3'', blob [13, 14, 15, 16])]\<rparr>"

definition y_file :: h5file where
  "y_file =
     \<lparr>attrs = [(''unit'', Text ''um'')], channels_attrs = sample_group_attrs,
      datasets = [(''Channel_0'', blob [1, 2, 3, 4]), (''Channel_1'', blob [13, 14, 15, 16])]\<rparr>"

definition three_file :: h5file where
  "three_file =
     \<lparr>attrs = [(''unit'', Text ''um'')], channels_attrs = sample_group_attrs,
      datasets = [(''Channel_0'', blob [1, 2, 3, 4]), (''Channel_1'', blob [5, 6, 7, 8]),
                  (''Channel_2'', blob [9, 10, 11, 12])]\<rparr>"

definition sample_world :: world where
  "sample_world =
     \<lparr>files = [''rgb.h5j'' \<mapsto> rgb_file, ''y.h5j'' \<mapsto> y_file, ''three.h5j'' \<mapsto> three_file],
      calls = []\<rparr>"

section \<open>Properties of codec discovery\<close>










section \<open>Properties of sequencing\<close>

lemma io_bind_ok: "m w = (Inr x, w') \<Longrightarrow> io_bind m f w = f x w'"
  by (simp add: io_bind_def)

lemma io_bind_err: "m w = (Inl e, w') \<Longrightarrow> io_bind m f w = (Inl e, w')"
  by (simp add: io_bind_def)

lemma io_bind_returns:
  "io_bind m f w = (Inr y, w'') \<Longrightarrow> \<exists>x w'. m w = (Inr x, w') \<and> f x w' = (Inr y, w'')"
  by (auto simp: io_bind_def split: prod.splits sum.splits)

lemma io_lift_returns: "io_lift r w = (Inr x, w') \<Longrightarrow> r = Inr x \<and> w' = w"
  by (simp add: io_lift_def)

lemma io_bind_assoc: "io_bind (io_bind m f) g = io_bind m (\<lambda>x. io_bind (f x) g)"
  by (auto simp: io_bind_def fun_eq_iff split: prod.splits sum.splits)

lemma io_bind_return: "io_bind (io_return x) f = f x"
  by (simp add: io_bind_def io_return_def)

lemma io_bind_lift_ok: "io_bind (io_lift (Inr x)) f = f x"
  by (simp add: io_bind_def io_lift_def)

lemma io_bind_lift_err: "io_bind (io_lift (Inl e)) f w = (Inl e, w)"
  by (simp add: io_bind_def io_lift_def)

section \<open>Properties of decoding\<close>

lemma extract_channel_probe_fails:
  "probe eng raw = Inl e \<Longrightarrow>
   extract_channel eng raw w = (Inl e, w\<lparr>calls := calls w @ [Probe raw]\<rparr>)"
  by (simp add: extract_channel_def io_bind_def call_probe_def)


lemma extract_channel_decoded:
  "probe eng raw = Inr meta \<Longrightarrow>
   decode_raw eng raw (fst (resolve_pix_fmt (pix_fmt meta))) = Inr out \<Longrightarrow>
   extract_channel eng raw w =
     (bind_err (frombuffer out (snd (resolve_pix_fmt (pix_fmt meta))))
        (\<lambda>flat. reshape_frames flat (snd (frame_size meta)) (fst (frame_size meta))),
      w\<lparr>calls := calls w @ [Probe raw,
        DecodeRaw raw (fst (resolve_pix_fmt (pix_fmt meta)))]\<rparr>)"
  by (simp add: extract_channel_def io_bind_def call_probe_def call_decode_raw_def
      io_lift_def split_beta)



lemma length_le16_elems: "length (le16_elems bs) = length bs div 2"
  by (induction bs rule: le16_elems.induct) auto

lemma length_buffer_elems: "length (buffer_elems dt bs) = length bs div itemsize dt"
  by (cases dt) (simp_all add: length_le16_elems)

lemma stored_probe:
  "probe stored_engine raw = Inr \<lparr>frame_size = (2, 1), pix_fmt = ''yuv420p(tv)''\<rparr>"
  by (simp add: stored_engine_def)

lemma stored_decode_raw: "decode_raw stored_engine raw fmt = Inr raw"
  by (simp add: stored_engine_def)

lemma stored_resolve: "resolve_pix_fmt ''yuv420p(tv)'' = (''yuv444p'', UInt8)"
  by (simp add: resolve_pix_fmt_def)


lemma stored_extract_four:
  "extract_channel stored_engine [a, b, c, d] w =
     (Inr \<lparr>shape = [2, 1, 2], dtype = UInt8, elems = [unat a, unat b, unat c, unat d]\<rparr>,
      w\<lparr>calls := calls w @ [Probe [a, b, c, d], DecodeRaw [a, b, c, d] ''yuv444p'']\<rparr>)"
  using extract_channel_decoded [OF stored_probe stored_decode_raw, of "[a, b, c, d]" w]
  by (simp add: stored_resolve bind_err_def frombuffer_def reshape_frames_def array_size_def)

lemma extract_channel_world:
  "fst (extract_channel eng raw w) = fst (extract_channel eng raw w')"
  by (simp add: extract_channel_def io_bind_def call_probe_def call_decode_raw_def
      io_lift_def split_beta split: sum.splits)

lemma reshape_frames_stack:
  "length (elems flat) = array_size flat \<Longrightarrow> reshape_frames flat h wd = Inr a \<Longrightarrow>
   length (shape a) = 3 \<and> length (elems a) = prod_list (shape a)"
  by (auto simp: reshape_frames_def split: if_splits)

lemma extract_channel_stack:
  assumes "fst (extract_channel eng raw w) = Inr a"
  shows "length (shape a) = 3 \<and> length (elems a) = prod_list (shape a)"
proof -
  from assms obtain out dt h wd flat
    where f: "frombuffer out dt = Inr flat" and r: "reshape_frames flat h wd = Inr a"
    by (auto simp: extract_channel_def io_bind_def call_probe_def call_decode_raw_def
        io_lift_def split_beta bind_err_def split: sum.splits)
  from f have "length (elems flat) = array_size flat"
    by (auto simp: frombuffer_def array_size_def length_buffer_elems split: if_splits)
  from this r show ?thesis by (rule reshape_frames_stack)
qed



text \<open>
  C7. In every decode whose probe and transcode succeed, with \<open>out\<close> the raw bytes and
  \<open>ew\<close> the element width: a returned stack has \<open>length out div (height * width * ew)\<close>
  frames of \<open>height\<close> rows and \<open>width\<close> columns; a byte count that
  \<open>height * width * ew\<close> does not divide raises ValueError; and a byte count that it
  divides gives a stack, when \<open>height * width\<close> is not zero.
\<close>

theorem extract_channel_frames:
  assumes "probe eng raw = Inr meta"
    and "frame_size meta = (width, height)"
    and "decode_raw eng raw (fst (resolve_pix_fmt (pix_fmt meta))) = Inr out"
    and "ew = itemsize (snd (resolve_pix_fmt (pix_fmt meta)))"
  shows "(\<forall>a. fst (extract_channel eng raw w) = Inr a \<longrightarrow>
            shape a = [length out div (height * width * ew), height, width] \<and>
            height * width * ew dvd length out) \<and>
         (\<not> height * width * ew dvd length out \<longrightarrow>
            fst (extract_channel eng raw w) = Inl ValueError) \<and>
         (0 < height * width \<and> height * width * ew dvd length out \<longrightarrow>
            (\<exists>a. fst (extract_channel eng raw w) = Inr a))"
proof -
  let ?dt = "snd (resolve_pix_fmt (pix_fmt meta))"
  let ?n = "length out"
  have ew: "0 < ew" using assms(4) by (cases ?dt) simp_all
  have res: "fst (extract_channel eng raw w) =
      bind_err (frombuffer out ?dt) (\<lambda>flat. reshape_frames flat height width)"
    using extract_channel_decoded [OF assms(1) assms(3), of w] assms(2) by simp
  have dvd_iff: "height * width * ew dvd ?n \<longleftrightarrow>
      ?n mod ew = 0 \<and> (?n div ew) mod (height * width) = 0"
  proof
    assume "height * width * ew dvd ?n"
    then obtain k where k: "?n = height * width * ew * k" by (auto simp: dvd_def)
    then have "?n = ew * (height * width * k)" by (simp add: mult_ac)
    then show "?n mod ew = 0 \<and> (?n div ew) mod (height * width) = 0"
      using ew by simp
  next
    assume a: "?n mod ew = 0 \<and> (?n div ew) mod (height * width) = 0"
    then obtain j where j: "?n div ew = height * width * j" by auto
    from a have "?n = ew * (?n div ew)" by auto
    with j have "?n = height * width * ew * j" by (simp add: mult_ac)
    then show "height * width * ew dvd ?n" by (metis dvd_triv_left)
  qed
  have div_eq: "(?n div ew) div (height * width) = ?n div (height * width * ew)"
    by (simp add: div_mult2_eq mult.commute)
  show ?thesis
    unfolding res
    using dvd_iff div_eq ew assms(4)
    by (auto simp: bind_err_def frombuffer_def reshape_frames_def array_size_def
        split: if_splits)
qed

text \<open>
  Instances of C7: four bytes at 2 by 1 pixels of one byte are two frames; three bytes
  raise ValueError.
\<close>

theorem extract_channel_frames_witness:
  "probe stored_engine [1, 2, 3, 4] = Inr \<lparr>frame_size = (2, 1), pix_fmt = ''yuv420p(tv)''\<rparr> \<and>
   decode_raw stored_engine [1, 2, 3, 4] ''yuv444p'' = Inr [1, 2, 3, 4] \<and>
   (\<exists>a. fst (extract_channel stored_engine [1, 2, 3, 4] sample_world) = Inr a \<and>
        shape a = [2, 1, 2]) \<and>
   fst (extract_channel stored_engine [1, 2, 3] sample_world) = Inl ValueError"
proof -
  let ?meta = "\<lparr>frame_size = (2, 1), pix_fmt = ''yuv420p(tv)''\<rparr>"
  have sz: "frame_size ?meta = (2, 1)" by simp
  have d4: "decode_raw stored_engine [1, 2, 3, 4] (fst (resolve_pix_fmt (pix_fmt ?meta)))
      = Inr [1, 2, 3, 4]"
    by (simp add: stored_decode_raw)
  have d3: "decode_raw stored_engine [1, 2, 3] (fst (resolve_pix_fmt (pix_fmt ?meta)))
      = Inr [1, 2, 3]"
    by (simp add: stored_decode_raw)
  have ew: "(1::nat) = itemsize (snd (resolve_pix_fmt (pix_fmt ?meta)))"
    by (simp add: stored_resolve)
  note t4 = extract_channel_frames [OF stored_probe sz d4 ew, of sample_world]
  note t3 = extract_channel_frames [OF stored_probe sz d3 ew, of sample_world]
  have dv: "(1::nat) * 2 * 1 dvd length [1, 2, 3, 4 :: byte]" by simp
  have ndv: "\<not> (1::nat) * 2 * 1 dvd length [1, 2, 3 :: byte]" by simp
  from t4 dv obtain a
    where a: "fst (extract_channel stored_engine [1, 2, 3, 4] sample_world) = Inr a"
    by auto
  with t4 have "shape a = [2, 1, 2]" by simp
  moreover from t3 ndv
  have "fst (extract_channel stored_engine [1, 2, 3] sample_world) = Inl ValueError"
    by blast
  ultimately show ?thesis using a by (simp add: stored_probe stored_decode_raw)
qed

section \<open>Properties of writing\<close>

text \<open>
  C9. For an array whose rank is neither 3 nor 4, \<open>write_binary_h5j\<close> raises ValueError
  and leaves the world as it was: no file is created or changed and the engine is not
  invoked.
\<close>

theorem write_rejects_rank:
  "length (shape arr) \<noteq> 3 \<Longrightarrow> length (shape arr) \<noteq> 4 \<Longrightarrow>
   write_binary_h5j eng filename arr codec w = (Inl ValueError, w)"
  by (auto simp: write_binary_h5j_def io_raise_def split: list.splits)

text \<open>An instance of C9: a two-dimensional array.\<close>

theorem write_rejects_rank_witness:
  "length (shape \<lparr>shape = [2, 2], dtype = UInt8, elems = [1, 2, 3, 4]\<rparr>) = 2 \<and>
   write_binary_h5j stored_engine ''out.h5j''
     \<lparr>shape = [2, 2], dtype = UInt8, elems = [1, 2, 3, 4]\<rparr> ''libx265'' sample_world
   = (Inl ValueError, sample_world)"
proof -
  let ?arr = "\<lparr>shape = [2, 2], dtype = UInt8, elems = [1, 2, 3, 4]\<rparr>"
  have a: "length (shape ?arr) \<noteq> 3" and b: "length (shape ?arr) \<noteq> 4" by simp_all
  from write_rejects_rank [OF a b] show ?thesis by simp
qed

lemma encode_channel_files: "files (snd (encode_channel eng a codec w)) = files w"
  by (auto simp: encode_channel_def io_bind_def io_raise_def io_return_def
      call_encode_video_def split: list.splits sum.splits)

lemma create_dataset_attrs:
  "files w filename = Some h5 \<Longrightarrow>
   \<exists>h5'. files (snd (create_dataset filename name data w)) filename = Some h5' \<and>
         channels_attrs h5' = channels_attrs h5"
  by (simp add: create_dataset_def)

lemma write_channels_attrs:
  "files w filename = Some h5 \<Longrightarrow>
   \<exists>h5'. files (snd (write_channels eng filename arr codec ns w)) filename = Some h5' \<and>
         channels_attrs h5' = channels_attrs h5"
proof (induction ns arbitrary: w h5)
  case Nil
  then show ?case by (simp add: io_return_def)
next
  case (Cons n ns)
  show ?case
  proof (cases "take_channel arr n")
    case (Inl e)
    with Cons.prems show ?thesis by (simp add: io_bind_lift_err)
  next
    case (Inr slice)
    obtain r1 w1 where e: "encode_channel eng slice codec w = (r1, w1)" by force
    then have f1: "files w1 filename = Some h5"
      using encode_channel_files [of eng slice codec w] Cons.prems by simp
    show ?thesis
    proof (cases r1)
      case (Inl e1)
      with Inr e f1 show ?thesis by (simp add: io_bind_lift_ok io_bind_err)
    next
      case data: (Inr data)
      obtain r2 w2 where c: "create_dataset filename (channel_name (int n)) data w1 = (r2, w2)"
        by force
      from create_dataset_attrs [OF f1, of "channel_name (int n)" data] c
      obtain h5' where f2: "files w2 filename = Some h5'"
        and a2: "channels_attrs h5' = channels_attrs h5" by auto
      show ?thesis
      proof (cases r2)
        case (Inl e2)
        with Inr e data c f2 a2 show ?thesis by (simp add: io_bind_lift_ok io_bind_ok io_bind_err)
      next
        case u: (Inr u)
        from Cons.IH [OF f2] a2 Inr e data c u show ?thesis
          by (simp add: io_bind_lift_ok io_bind_ok)
      qed
    qed
  qed
qed

lemma write_accepted_attrs:
  "\<exists>h5. files (snd (write_accepted eng filename arr nframes height width nchannels codec w))
           filename = Some h5 \<and>
        channels_attrs h5 =
          [(''frames'', [int nframes]), (''height'', [int height]), (''pad_bottom'', [0]),
           (''pad_right'', [0]), (''width'', [int width])]"
proof -
  let ?ga = "[(''frames'', [int nframes]), (''height'', [int height]), (''pad_bottom'', [0]),
           (''pad_right'', [0]), (''width'', [int width])]"
  let ?w1 = "w\<lparr>files := (files w)(filename \<mapsto>
                        \<lparr>attrs = [], channels_attrs = ?ga, datasets = []\<rparr>)\<rparr>"
  have "files ?w1 filename = Some \<lparr>attrs = [], channels_attrs = ?ga, datasets = []\<rparr>" by simp
  from write_channels_attrs [OF this, of eng arr codec "[0..<nchannels]"]
  show ?thesis
    by (simp add: write_accepted_def create_container_def io_bind_def)
qed

text \<open>
  C8. For every array of rank 3 or 4, whatever the engine does, the file at the path holds
  after \<open>write_binary_h5j\<close> the group attributes \<open>frames\<close>, \<open>height\<close> and
  \<open>width\<close> of the array's shape and \<open>pad_bottom = pad_right = 0\<close>, each as a
  one-element array.
\<close>

theorem write_persists_attributes:
  assumes "length (shape arr) = 3 \<or> length (shape arr) = 4"
  shows "\<exists>h5. files (snd (write_binary_h5j eng filename arr codec w)) filename = Some h5 \<and>
           channels_attrs h5 =
             [(''frames'', [int (shape arr ! 0)]), (''height'', [int (shape arr ! 1)]),
              (''pad_bottom'', [0]), (''pad_right'', [0]), (''width'', [int (shape arr ! 2)])]"
proof -
  from assms consider (three) f h wd where "shape arr = [f, h, wd]"
    | (four) f h wd n where "shape arr = [f, h, wd, n]"
    by (auto simp: length_Suc_conv numeral_3_eq_3 numeral_eq_Suc)
  then show ?thesis
  proof cases
    case three
    with write_accepted_attrs [of eng filename "expand_trailing arr" f h wd 1 codec w]
    show ?thesis by (simp add: write_binary_h5j_def)
  next
    case four
    with write_accepted_attrs [of eng filename arr f h wd n codec w]
    show ?thesis by (simp add: write_binary_h5j_def)
  qed
qed

text \<open>An instance of C8: a stack of two frames of 1 by 2 pixels.\<close>

theorem write_persists_attributes_witness:
  "length (shape \<lparr>shape = [2, 1, 2], dtype = UInt8, elems = [1, 2, 3, 4]\<rparr>) = 3 \<and>
   (\<exists>h5. files (snd (write_binary_h5j stored_engine ''out.h5j''
            \<lparr>shape = [2, 1, 2], dtype = UInt8, elems = [1, 2, 3, 4]\<rparr> ''libx265'' sample_world))
          ''out.h5j'' = Some h5 \<and>
        channels_attrs h5 =
          [(''frames'', [2]), (''height'', [1]), (''pad_bottom'', [0]), (''pad_right'', [0]),
           (''width'', [2])])"
proof -
  let ?arr = "\<lparr>shape = [2, 1, 2], dtype = UInt8, elems = [1, 2, 3, 4]\<rparr>"
  have a: "length (shape ?arr) = 3 \<or> length (shape ?arr) = 4" by simp
  from write_persists_attributes [OF a, of stored_engine "''out.h5j''" "''libx265''" sample_world]
  show ?thesis by simp
qed

section \<open>Properties of reading\<close>

lemma extract_signal_channels_append:
  "extract_signal_channels eng h5 s (pre @ rest) acc =
     io_bind (extract_signal_channels eng h5 s pre acc) (extract_signal_channels eng h5 s rest)"
  by (induction pre arbitrary: acc) (simp_all add: io_bind_return io_bind_assoc)

lemma extract_signal_channels_missing_letter:
  "map_of m c = None \<Longrightarrow>
   extract_signal_channels eng h5 (Some m) (c # post) acc w = (Inl (KeyError [c]), w)"
  by (simp add: lookup_signal_def io_bind_lift_err)

lemma extract_signal_channels_fails:
  "c \<in> set cs \<Longrightarrow> map_of m c = None \<Longrightarrow>
   \<exists>e w'. extract_signal_channels eng h5 (Some m) cs acc w = (Inl e, w')"
proof (induction cs arbitrary: acc w)
  case Nil
  then show ?case by simp
next
  case (Cons d ds)
  show ?case
  proof (cases "lookup_signal (Some m) d")
    case (Inl e)
    then show ?thesis by (simp add: io_bind_lift_err)
  next
    case i: (Inr i)
    with Cons.prems have in_ds: "c \<in> set ds" by (auto simp: lookup_signal_def)
    show ?thesis
    proof (cases "dataset_bytes h5 (channel_name (int i))")
      case (Inl e)
      with i show ?thesis by (simp add: io_bind_lift_ok io_bind_lift_err)
    next
      case raw: (Inr raw)
      obtain r w1 where x: "extract_channel eng raw w = (r, w1)" by force
      show ?thesis
      proof (cases r)
        case (Inl e)
        with i raw x show ?thesis by (simp add: io_bind_lift_ok io_bind_err)
      next
        case (Inr a)
        with i raw x Cons.IH [OF in_ds Cons.prems(2), of "acc @ [a]" w1] show ?thesis
          by (simp add: io_bind_lift_ok io_bind_ok)
      qed
    qed
  qed
qed


lemma extract_signal_channels_returns:
  "extract_signal_channels eng h5 s cs acc w = (Inr xs, w') \<Longrightarrow>
   \<exists>ys. xs = acc @ ys \<and> length ys = length cs \<and>
     (\<forall>k<length cs. \<exists>i raw. lookup_signal s (cs ! k) = Inr i \<and>
        dataset_bytes h5 (channel_name (int i)) = Inr raw \<and>
        fst (extract_channel eng raw w) = Inr (ys ! k))"
proof (induction cs arbitrary: acc w)
  case Nil
  then show ?case by (simp add: io_return_def)
next
  case (Cons c cs)
  from Cons.prems obtain i raw a w1
    where i: "lookup_signal s c = Inr i"
      and raw: "dataset_bytes h5 (channel_name (int i)) = Inr raw"
      and a: "extract_channel eng raw w = (Inr a, w1)"
      and rest: "extract_signal_channels eng h5 s cs (acc @ [a]) w1 = (Inr xs, w')"
    by (auto dest!: io_bind_returns io_lift_returns)
  from Cons.IH [OF rest] obtain ys
    where xs: "xs = (acc @ [a]) @ ys" and len: "length ys = length cs"
      and each: "\<forall>k<length cs. \<exists>i raw. lookup_signal s (cs ! k) = Inr i \<and>
        dataset_bytes h5 (channel_name (int i)) = Inr raw \<and>
        fst (extract_channel eng raw w1) = Inr (ys ! k)"
    by blast
  have "\<exists>i raw. lookup_signal s ((c # cs) ! k) = Inr i \<and>
        dataset_bytes h5 (channel_name (int i)) = Inr raw \<and>
        fst (extract_channel eng raw w) = Inr ((a # ys) ! k)" if "k < length (c # cs)" for k
  proof (cases k)
    case 0
    with i raw a show ?thesis by simp
  next
    case (Suc j)
    with that each have "\<exists>i raw. lookup_signal s (cs ! j) = Inr i \<and>
        dataset_bytes h5 (channel_name (int i)) = Inr raw \<and>
        fst (extract_channel eng raw w1) = Inr (ys ! j)" by simp
    then show ?thesis using Suc extract_channel_world [of eng _ w w1] by simp
  qed
  with xs len show ?case by (intro exI [of _ "a # ys"]) simp
qed


lemma read_opened_attrs_fail:
  "read_channel_attributes (channels_attrs h5) = Inl e \<Longrightarrow>
   read_opened eng h5 channels reference w = (Inl e, w)"
  by (simp add: read_opened_def io_bind_lift_err)

lemma read_opened_attrs_ok:
  "read_channel_attributes (channels_attrs h5) = Inr t \<Longrightarrow>
   read_opened eng h5 channels reference =
     io_bind (case default_channels (int (length (datasets h5)) - 1) channels of
                None \<Rightarrow> io_raise TypeError
              | Some cs \<Rightarrow> extract_signal_channels eng h5
                  (detect_signals (int (length (datasets h5)) - 1)) cs [])
       (\<lambda>signal_channels.
     io_bind (io_lift (assemble_signal (int (length (datasets h5)) - 1) signal_channels))
       (\<lambda>signal.
     io_bind (if reference then
        io_bind (io_lift (dataset_bytes h5 (channel_name (int (length (datasets h5)) - 1)))) (\<lambda>raw.
        io_bind (extract_channel eng raw) (\<lambda>r. io_return (Some r)))
      else io_return None) (\<lambda>reference'.
     io_return (signal, reference', attrs h5))))"
  by (cases t) (simp add: read_opened_def io_bind_lift_ok Let_def cong: option.case_cong)

lemma default_channels_given:
  "detect_signals n = Some m \<Longrightarrow> default_channels n (Some cs) = Some cs"
  by (auto simp: detect_signals_def default_channels_def split: if_splits)

lemma read_h5j_returns:
  assumes op: "files w filename = Some h5"
    and ret: "read_h5j eng filename (Some cs) reference w = (Inr (signal, ref, at), w')"
  shows "\<exists>xs w1. extract_signal_channels eng h5
             (detect_signals (int (length (datasets h5)) - 1)) cs [] w = (Inr xs, w1) \<and>
           assemble_signal (int (length (datasets h5)) - 1) xs = Inr signal"
proof -
  let ?n = "int (length (datasets h5)) - 1"
  from op ret have ro: "read_opened eng h5 (Some cs) reference w = (Inr (signal, ref, at), w')"
    by (simp add: read_h5j_def)
  then obtain t where t: "read_channel_attributes (channels_attrs h5) = Inr t"
    by (cases "read_channel_attributes (channels_attrs h5)") (simp_all add: read_opened_attrs_fail)
  have dc: "default_channels ?n (Some cs) = Some cs"
    by (simp add: default_channels_def)
  from ro [unfolded read_opened_attrs_ok [OF t] dc, simplified]
  obtain xs w1 where x: "extract_signal_channels eng h5 (detect_signals ?n) cs [] w = (Inr xs, w1)"
    and rest: "io_bind (io_lift (assemble_signal ?n xs))
       (\<lambda>signal.
     io_bind (if reference then
        io_bind (io_lift (dataset_bytes h5 (channel_name ?n))) (\<lambda>raw.
        io_bind (extract_channel eng raw) (\<lambda>r. io_return (Some r)))
      else io_return None) (\<lambda>reference'.
     io_return (signal, reference', attrs h5))) w1 = (Inr (signal, ref, at), w')"
    by (blast dest: io_bind_returns)
  from rest obtain sg w2 where a: "assemble_signal ?n xs = Inr sg"
    and fin: "io_bind (if reference then
        io_bind (io_lift (dataset_bytes h5 (channel_name ?n))) (\<lambda>raw.
        io_bind (extract_channel eng raw) (\<lambda>r. io_return (Some r)))
      else io_return None) (\<lambda>reference'.
     io_return (sg, reference', attrs h5)) w2 = (Inr (signal, ref, at), w')"
    by (blast dest: io_bind_returns io_lift_returns)
  from fin have "sg = signal"
    by (auto dest!: io_bind_returns simp: io_return_def)
  with x a show ?thesis by blast
qed

subsection \<open>The sample containers\<close>

lemma sample_attrs_ok: "read_channel_attributes sample_group_attrs = Inr (2, 1, 2)"
  by (simp add: read_channel_attributes_def sample_group_attrs_def attr0_def bind_err_def
      py_index_def)


lemma sample_files:
  "files sample_world ''rgb.h5j'' = Some rgb_file"
  "files sample_world ''y.h5j'' = Some y_file"
  "files sample_world ''three.h5j'' = Some three_file"
  by (simp_all add: sample_world_def)

lemma rgb_file_fields:
  "length (datasets rgb_file) = 4" "channels_attrs rgb_file = sample_group_attrs"
  "attrs rgb_file = [(''unit'', Text ''um'')]"
  by (simp_all add: rgb_file_def)


lemma y_file_fields:
  "length (datasets y_file) = 2" "channels_attrs y_file = sample_group_attrs"
  "attrs y_file = [(''unit'', Text ''um'')]"
  by (simp_all add: y_file_def)

lemma y_signals: "detect_signals (int (length (datasets y_file)) - 1) = Some [(CHR ''Y'', 0)]"
  by (simp add: y_file_fields detect_signals_def)

subsection \<open>Letters outside the signal set\<close>

text \<open>
  C10. On a container of a detected class (2 or 4 datasets, with signal letters \<open>m\<close>),
  a request that holds a letter \<open>c\<close> outside \<open>m\<close> never returns; and when the
  attributes are readable and the letters before \<open>c\<close> were decoded, the exception is
  \<open>KeyError c\<close>, raised in the world those decodes left: the letter is neither skipped
  nor replaced, and nothing after it is decoded.
\<close>

theorem read_missing_letter:
  assumes "files w filename = Some h5"
    and "detect_signals (int (length (datasets h5)) - 1) = Some m"
    and "channels = pre @ c # post"
    and "map_of m c = None"
  shows "(\<exists>e w'. read_h5j eng filename (Some channels) reference w = (Inl e, w')) \<and>
         (\<forall>t xs w1. read_channel_attributes (channels_attrs h5) = Inr t \<and>
             extract_signal_channels eng h5 (Some m) pre [] w = (Inr xs, w1) \<longrightarrow>
             read_h5j eng filename (Some channels) reference w = (Inl (KeyError [c]), w1))"
proof -
  let ?n = "int (length (datasets h5)) - 1"
  have rd: "read_h5j eng filename (Some channels) reference w =
      read_opened eng h5 (Some channels) reference w"
    using assms(1) by (simp add: read_h5j_def)
  have dc: "default_channels ?n (Some channels) = Some channels"
    using assms(2) by (rule default_channels_given)
  have first: "\<exists>e w'. read_opened eng h5 (Some channels) reference w = (Inl e, w')"
  proof (cases "read_channel_attributes (channels_attrs h5)")
    case (Inl e)
    then show ?thesis by (simp add: read_opened_attrs_fail)
  next
    case (Inr t)
    from assms(3) have "c \<in> set channels" by simp
    from extract_signal_channels_fails [OF this assms(4), of eng h5 "[]" w]
    obtain e w' where "extract_signal_channels eng h5 (Some m) channels [] w = (Inl e, w')"
      by blast
    then show ?thesis
      by (simp add: read_opened_attrs_ok [OF Inr] dc assms(2) io_bind_err)
  qed
  have second: "read_opened eng h5 (Some channels) reference w = (Inl (KeyError [c]), w1)"
    if t: "read_channel_attributes (channels_attrs h5) = Inr t"
      and p: "extract_signal_channels eng h5 (Some m) pre [] w = (Inr xs, w1)"
    for t xs w1
  proof -
    have "extract_signal_channels eng h5 (Some m) channels [] w = (Inl (KeyError [c]), w1)"
      unfolding assms(3) extract_signal_channels_append
      using p extract_signal_channels_missing_letter [OF assms(4), of eng h5 post xs w1]
      by (simp add: io_bind_ok)
    then show ?thesis
      by (simp add: read_opened_attrs_ok [OF t] dc assms(2) io_bind_err)
  qed
  from first second show ?thesis unfolding rd by blast
qed

text \<open>An instance of C10: the letter \<open>R\<close> on a container whose only signal is \<open>Y\<close>.\<close>

theorem read_missing_letter_witness:
  "files sample_world ''y.h5j'' = Some y_file \<and>
   detect_signals (int (length (datasets y_file)) - 1) = Some [(CHR ''Y'', 0)] \<and>
   map_of [(CHR ''Y'', 0 :: nat)] CHR ''R'' = None \<and>
   read_h5j stored_engine ''y.h5j'' (Some ''R'') False sample_world
     = (Inl (KeyError ''R''), sample_world)"
proof -
  have split: "''R'' = [] @ CHR ''R'' # []" by simp
  have miss: "map_of [(CHR ''Y'', 0 :: nat)] CHR ''R'' = None" by simp
  have at: "read_channel_attributes (channels_attrs y_file) = Inr (2, 1, 2)"
    by (simp add: y_file_fields sample_attrs_ok)
  have pre: "extract_signal_channels stored_engine y_file (Some [(CHR ''Y'', 0)]) [] [] sample_world
      = (Inr [], sample_world)"
    by (simp add: io_return_def)
  from read_missing_letter [OF sample_files(2) y_signals split miss, of stored_engine False]
    at pre
  have "read_h5j stored_engine ''y.h5j'' (Some ''R'') False sample_world
     = (Inl (KeyError ''R''), sample_world)"
    by blast
  with sample_files(2) y_signals miss show ?thesis by blast
qed

subsection \<open>Stacking\<close>



lemma take_one_drop: "i < length xs \<Longrightarrow> take (Suc 0) (drop i xs) = [xs ! i]"
  by (simp add: take_Suc_conv_app_nth)

lemma concat_singletons: "\<forall>y \<in> set ys. f y = [g y] \<Longrightarrow> concat (map f ys) = map g ys"
  by (induction ys) simp_all

lemma sum_list_ones: "\<forall>y \<in> set ys. f y = (1::nat) \<Longrightarrow> sum_list (map f ys) = length ys"
  by (induction ys) simp_all

lemma expand_trailing_simps:
  "shape (expand_trailing a) = shape a @ [1]"
  "dtype (expand_trailing a) = dtype a"
  "elems (expand_trailing a) = elems a"
  by (simp_all add: expand_trailing_def)

lemma concatenate_expanded:
  assumes stacks: "\<forall>y \<in> set ys. length (shape y) = 3 \<and> length (elems y) = prod_list (shape y)"
    and cat: "concatenate_axis3 (map expand_trailing ys) = Inr sig"
  shows "ys \<noteq> [] \<and> (\<forall>y \<in> set ys. shape y = shape (hd ys)) \<and>
         shape sig = shape (hd ys) @ [length ys] \<and>
         dtype sig = foldl promote (dtype (hd ys)) (map dtype (tl ys)) \<and>
         elems sig = concat (map (\<lambda>i. map (\<lambda>y. elems y ! i) ys)
                       [0..<prod_list (shape (hd ys))])"
proof -
  from cat obtain y0 rest where ys: "ys = y0 # rest"
    by (cases ys) (simp_all add: concatenate_axis3_def)
  have three: "\<And>y. y \<in> set ys \<Longrightarrow> take 3 (shape y @ [1]) = shape y"
    using stacks by simp
  have last1: "\<And>y. y \<in> set ys \<Longrightarrow> (shape y @ [1]) ! 3 = 1"
    using stacks by (simp add: nth_append)
  from cat have all: "list_all (\<lambda>b. length (shape b) = 4 \<and> take 3 (shape b) = take 3 (shape (expand_trailing y0)))
        (map expand_trailing ys)"
    and sig: "sig = \<lparr>shape = take 3 (shape (expand_trailing y0)) @
                  [sum_list (map (\<lambda>b. shape b ! 3) (map expand_trailing ys))],
                dtype = foldl promote (dtype (expand_trailing y0)) (map dtype (map expand_trailing rest)),
                elems = concat (map (\<lambda>i. concat (map (\<lambda>b. take (shape b ! 3)
                                (drop (i * (shape b ! 3)) (elems b))) (map expand_trailing ys)))
                              [0..<prod_list (take 3 (shape (expand_trailing y0)))])\<rparr>"
    unfolding ys by (simp_all add: concatenate_axis3_def split: if_splits)
  have y0: "take 3 (shape (expand_trailing y0)) = shape y0"
    using three [of y0] ys by (simp add: expand_trailing_simps)
  have same: "\<forall>y \<in> set ys. shape y = shape y0"
  proof
    fix y assume y: "y \<in> set ys"
    with all have "take 3 (shape (expand_trailing y)) = take 3 (shape (expand_trailing y0))"
      by (auto simp: list_all_iff)
    with three [OF y] y0 show "shape y = shape y0" by (simp add: expand_trailing_simps)
  qed
  have sum1: "sum_list (map (\<lambda>b. shape b ! 3) (map expand_trailing ys)) = length ys"
  proof -
    have "\<forall>y \<in> set ys. ((\<lambda>b. shape b ! 3) \<circ> expand_trailing) y = 1"
      using last1 by (simp add: expand_trailing_simps)
    then show ?thesis by (simp add: sum_list_ones)
  qed
  have row: "concat (map (\<lambda>b. take (shape b ! 3) (drop (i * (shape b ! 3)) (elems b)))
               (map expand_trailing ys)) = map (\<lambda>y. elems y ! i) ys"
    if "i < prod_list (shape y0)" for i
  proof -
    have "\<forall>y \<in> set ys. ((\<lambda>b. take (shape b ! 3) (drop (i * (shape b ! 3)) (elems b)))
             \<circ> expand_trailing) y = [elems y ! i]"
    proof
      fix y assume y: "y \<in> set ys"
      with stacks same that have "i < length (elems y)" by simp
      with last1 [OF y] show "((\<lambda>b. take (shape b ! 3) (drop (i * (shape b ! 3)) (elems b)))
             \<circ> expand_trailing) y = [elems y ! i]"
        by (simp add: expand_trailing_simps take_one_drop)
    qed
    then show ?thesis by (simp add: concat_singletons)
  qed
  have rows: "map (\<lambda>i. concat (map (\<lambda>b. take (shape b ! 3) (drop (i * (shape b ! 3)) (elems b)))
                 (map expand_trailing ys))) [0..<prod_list (shape y0)]
      = map (\<lambda>i. map (\<lambda>y. elems y ! i) ys) [0..<prod_list (shape y0)]"
    by (rule map_cong [OF refl], rule row, simp)
  have "elems sig = concat (map (\<lambda>i. concat (map (\<lambda>b. take (shape b ! 3)
                 (drop (i * (shape b ! 3)) (elems b))) (map expand_trailing ys)))
               [0..<prod_list (shape y0)])"
    by (simp only: sig ndarray.select_convs y0)
  also have "\<dots> = concat (map (\<lambda>i. map (\<lambda>y. elems y ! i) ys) [0..<prod_list (shape y0)])"
    using rows by (rule arg_cong)
  finally have el: "elems sig =
      concat (map (\<lambda>i. map (\<lambda>y. elems y ! i) ys) [0..<prod_list (shape y0)])" .
  have sh: "shape sig = shape y0 @ [length ys]"
    by (simp only: sig ndarray.select_convs y0 sum1)
  have dt: "dtype sig = foldl promote (dtype y0) (map dtype rest)"
    by (simp only: sig ndarray.select_convs expand_trailing_simps map_map comp_def)
  have hd: "hd ys = y0" and tl: "tl ys = rest" and ne: "ys \<noteq> []"
    by (simp_all add: ys)
  from same sh dt el show ?thesis
    unfolding hd tl using ne by blast
qed




text \<open>
  C2, as the code has it. When \<open>read_h5j\<close> returns for a request of one letter, the
  container has 2 or 4 datasets and the letter's dataset was decoded to a
  three-dimensional stack; on a container of 2 datasets the signal is that stack, and on
  a container of 4 datasets it is the four-dimensional array with the same elements and a
  trailing axis of length 1.
\<close>

theorem read_single_channel:
  assumes "files w filename = Some h5"
    and "read_h5j eng filename (Some [c]) reference w = (Inr (signal, ref, at), w')"
  shows "\<exists>i raw a.
           lookup_signal (detect_signals (int (length (datasets h5)) - 1)) c = Inr i \<and>
           dataset_bytes h5 (channel_name (int i)) = Inr raw \<and>
           fst (extract_channel eng raw w) = Inr a \<and> length (shape a) = 3 \<and>
           (length (datasets h5) = 2 \<or> length (datasets h5) = 4) \<and>
           (length (datasets h5) = 2 \<longrightarrow> signal = Some a) \<and>
           (length (datasets h5) = 4 \<longrightarrow>
              signal = Some \<lparr>shape = shape a @ [1], dtype = dtype a, elems = elems a\<rparr>)"
proof -
  let ?n = "int (length (datasets h5)) - 1"
  from read_h5j_returns [OF assms] obtain xs w1
    where x: "extract_signal_channels eng h5 (detect_signals ?n) [c] [] w = (Inr xs, w1)"
      and asm: "assemble_signal ?n xs = Inr signal"
    by blast
  from extract_signal_channels_returns [OF x] obtain i raw a
    where xs: "xs = [a]" and i: "lookup_signal (detect_signals ?n) c = Inr i"
      and raw: "dataset_bytes h5 (channel_name (int i)) = Inr raw"
      and ex: "fst (extract_channel eng raw w) = Inr a"
    by (auto simp: length_Suc_conv)
  from extract_channel_stack [OF ex]
  have a3: "length (shape a) = 3" and al: "length (elems a) = prod_list (shape a)" by simp_all
  from i have cls: "length (datasets h5) = 2 \<or> length (datasets h5) = 4"
    by (auto simp: lookup_signal_def detect_signals_def split: if_splits)
  have two: "signal = Some a" if "length (datasets h5) = 2"
    using asm that xs by (simp add: assemble_signal_def bind_err_def py_index_def)
  have four: "signal = Some \<lparr>shape = shape a @ [1], dtype = dtype a, elems = elems a\<rparr>"
    if "length (datasets h5) = 4"
  proof -
    from asm that xs obtain sig where sig: "signal = Some sig"
      and cat: "concatenate_axis3 (map expand_trailing [a]) = Inr sig"
      by (auto simp: assemble_signal_def bind_err_def split: sum.splits)
    have "\<forall>y \<in> set [a]. length (shape y) = 3 \<and> length (elems y) = prod_list (shape y)"
      using a3 al by simp
    from concatenate_expanded [OF this cat]
    have sh: "shape sig = shape a @ [1]" and dt: "dtype sig = dtype a"
      and el: "elems sig = concat (map (\<lambda>i. [elems a ! i]) [0..<prod_list (shape a)])"
      by simp_all
    have "concat (map (\<lambda>i. [elems a ! i]) [0..<length (elems a)]) = elems a"
      by (simp add: concat_singletons [where g = "\<lambda>i. elems a ! i"] map_nth)
    with el al have "elems sig = elems a" by simp
    with sh dt sig show ?thesis by (cases sig) simp
  qed
  from i raw ex a3 cls two four show ?thesis by blast
qed

text \<open>An instance of C2 as the code has it: the request \<open>Y\<close> on a container of 2 datasets.\<close>

theorem read_single_channel_witness:
  "files sample_world ''y.h5j'' = Some y_file \<and> length (datasets y_file) = 2 \<and>
   fst (read_h5j stored_engine ''y.h5j'' (Some ''Y'') False sample_world)
     = Inr (Some \<lparr>shape = [2, 1, 2], dtype = UInt8, elems = [1, 2, 3, 4]\<rparr>, None,
            [(''unit'', Text ''um'')]) \<and>
   fst (extract_channel stored_engine [1, 2, 3, 4] sample_world)
     = Inr \<lparr>shape = [2, 1, 2], dtype = UInt8, elems = [1, 2, 3, 4]\<rparr> \<and>
   length (shape \<lparr>shape = [2, 1, 2], dtype = UInt8, elems = [1 :: nat, 2, 3, 4]\<rparr>) = 3"
proof -
  let ?r = "read_h5j stored_engine ''y.h5j'' (Some ''Y'') False sample_world"
  let ?a = "\<lparr>shape = [2, 1, 2], dtype = UInt8, elems = [1 :: nat, 2, 3, 4]\<rparr>"
  have ev: "fst ?r = Inr (Some ?a, None, [(''unit'', Text ''um'')])"
    by code_simp
  then have eq: "?r = (Inr (Some ?a, None, [(''unit'', Text ''um'')]), snd ?r)"
    by (metis prod.collapse)
  from read_single_channel [OF sample_files(2) eq] obtain a
    where "length (shape a) = 3" and "length (datasets y_file) = 2 \<longrightarrow> Some ?a = Some a"
    by blast
  with y_file_fields(1) have "length (shape ?a) = 3" by simp
  moreover have "fst (extract_channel stored_engine [1, 2, 3, 4] sample_world) = Inr ?a"
    by (simp add: stored_extract_four)
  ultimately show ?thesis using ev sample_files(2) y_file_fields(1) by blast
qed

text \<open>
  C2 as stated fails: the request \<open>R\<close> on a container of 4 datasets returns an array
  of four dimensions, the last of length 1.
\<close>

theorem read_single_channel_rgb_counterexample:
  "fst (read_h5j stored_engine ''rgb.h5j'' (Some ''R'') False sample_world)
     = Inr (Some \<lparr>shape = [2, 1, 2, 1], dtype = UInt8, elems = [1, 2, 3, 4]\<rparr>, None,
            [(''unit'', Text ''um'')]) \<and>
   length (shape \<lparr>shape = [2, 1, 2, 1], dtype = UInt8, elems = [1 :: nat, 2, 3, 4]\<rparr>) = 4"
  by code_simp

subsection \<open>The empty request\<close>

text \<open>
  C1 does not hold of the code. With the empty channel string and readable attributes,
  \<open>read_h5j\<close> raises ValueError on every container of 4 datasets (\<open>np.concatenate\<close>
  of an empty list) and IndexError on every container of 2 datasets
  (\<open>signal_channels[0]\<close>), before the reference is decoded; nothing is returned.
\<close>

theorem read_empty_request_raises:
  assumes "files w filename = Some h5"
    and "read_channel_attributes (channels_attrs h5) = Inr t"
  shows "(length (datasets h5) = 4 \<longrightarrow>
            read_h5j eng filename (Some []) reference w = (Inl ValueError, w)) \<and>
         (length (datasets h5) = 2 \<longrightarrow>
            read_h5j eng filename (Some []) reference w = (Inl IndexError, w))"
  using assms(1)
  by (simp add: read_h5j_def read_opened_attrs_ok [OF assms(2)] default_channels_def
      io_bind_return assemble_signal_def concatenate_axis3_def py_index_def bind_err_def
      io_bind_lift_err)

text \<open>An instance on the sample container of 4 datasets, with the reference requested.\<close>

theorem read_empty_request_raises_witness:
  "files sample_world ''rgb.h5j'' = Some rgb_file \<and>
   read_channel_attributes (channels_attrs rgb_file) = Inr (2, 1, 2) \<and>
   length (datasets rgb_file) = 4 \<and>
   read_h5j stored_engine ''rgb.h5j'' (Some []) True sample_world = (Inl ValueError, sample_world)"
proof -
  have at: "read_channel_attributes (channels_attrs rgb_file) = Inr (2, 1, 2)"
    by (simp add: rgb_file_fields sample_attrs_ok)
  from read_empty_request_raises [OF sample_files(1) at, of stored_engine True]
    rgb_file_fields(1) sample_files(1) at
  show ?thesis by blast
qed

subsection \<open>A dataset count outside 2 and 4\<close>

text \<open>
  C4 does not hold of the code. On a container of 3 datasets, the empty request with the
  reference returns: the signal is \<open>None\<close> and \<open>Channel_2\<close> is decoded as the
  reference. The default request raises TypeError and the request \<open>R\<close> raises
  UnboundLocalError, neither of them an error about the container.
\<close>

theorem read_three_datasets_returns:
  "fst (read_h5j stored_engine ''three.h5j'' (Some []) True sample_world)
     = Inr (None, Some \<lparr>shape = [2, 1, 2], dtype = UInt8, elems = [9, 10, 11, 12]\<rparr>,
            [(''unit'', Text ''um'')]) \<and>
   calls (snd (read_h5j stored_engine ''three.h5j'' (Some []) True sample_world))
     = [Probe [9, 10, 11, 12], DecodeRaw [9, 10, 11, 12] ''yuv444p''] \<and>
   fst (read_h5j stored_engine ''three.h5j'' None False sample_world) = Inl TypeError \<and>
   fst (read_h5j stored_engine ''three.h5j'' (Some ''R'') False sample_world)
     = Inl UnboundLocalError"
  by code_simp

end
